theory Spec2Isabelle
  imports Main
begin

section \<open>Python text: code points, whitespace, \<open>split\<close> and \<open>int\<close>\<close>

text \<open>
  A Python \<open>str\<close> is a sequence of Unicode code points, so it is modelled as a list of
  naturals. \<open>ascii\<close> turns an ASCII literal into that representation.
\<close>

type_synonym pystr = "nat list"

definition ascii :: "string \<Rightarrow> pystr" where
  "ascii s = map of_char s"

text \<open>
  \<open>str.isspace\<close> for one code point: the characters \<open>str.split()\<close> and \<open>str.strip()\<close>
  treat as whitespace (Unicode 14, as shipped with CPython 3.11).
\<close>

definition isspace :: "nat \<Rightarrow> bool" where
  "isspace c \<longleftrightarrow>
     (9 \<le> c \<and> c \<le> 13) \<or> (28 \<le> c \<and> c \<le> 32) \<or> c = 133 \<or> c = 160 \<or> c = 5760 \<or>
     (8192 \<le> c \<and> c \<le> 8202) \<or> c = 8232 \<or> c = 8233 \<or> c = 8239 \<or> c = 8287 \<or> c = 12288"

text \<open>\<open>s.strip()\<close>: whitespace removed at both ends.\<close>

definition py_strip :: "pystr \<Rightarrow> pystr" where
  "py_strip s = rev (dropWhile isspace (rev (dropWhile isspace s)))"

text \<open>
  \<open>s.split()\<close> without a separator: the maximal runs of non-whitespace characters, in
  order; there is never an empty token. \<open>cur\<close> holds the token being read, reversed.
\<close>

fun split_aux :: "pystr \<Rightarrow> pystr \<Rightarrow> pystr list" where
  "split_aux cur [] = (if cur = [] then [] else [rev cur])"
| "split_aux cur (c # cs) =
     (if isspace c then (if cur = [] then split_aux [] cs else rev cur # split_aux [] cs)
      else split_aux (c # cur) cs)"

definition py_split :: "pystr \<Rightarrow> pystr list" where
  "py_split s = split_aux [] s"

text \<open>
  The code points of the digit zero of every Unicode decimal-digit block (category Nd,
  Unicode 14). Each block is ten consecutive code points, zero first. \<open>int\<close> accepts
  all of them.
\<close>

definition nd_zeros :: "nat list" where
  "nd_zeros =
     [48, 1632, 1776, 1984, 2406, 2534, 2662, 2790, 2918, 3046, 3174, 3302, 3430, 3558,
      3664, 3792, 3872, 4160, 4240, 6112, 6160, 6470, 6608, 6784, 6800, 6992, 7088, 7232,
      7248, 42528, 43216, 43264, 43472, 43504, 43600, 44016, 65296, 66720, 68912, 69734,
      69872, 69942, 70096, 70384, 70736, 70864, 71248, 71360, 71472, 71904, 72016, 72784,
      73040, 73120, 92768, 92864, 93008, 120782, 120792, 120802, 120812, 120822, 123200,
      123632, 125264, 130032]"

definition py_decimal :: "nat \<Rightarrow> nat option" where
  "py_decimal c = map_option (\<lambda>z. c - z) (find (\<lambda>z. z \<le> c \<and> c < z + 10) nd_zeros)"

text \<open>
  The digit string of a base-10 literal: at least one digit, single underscores allowed
  between digits only. The result is the list of digit values, \<open>None\<close> where \<open>int\<close>
  raises \<open>ValueError\<close>.
\<close>

fun int_digits :: "pystr \<Rightarrow> nat list option" where
  "int_digits [] = None"
| "int_digits [c] = map_option (\<lambda>d. [d]) (py_decimal c)"
| "int_digits (c # x # cs) =
     (case py_decimal c of
        None \<Rightarrow> None
      | Some d \<Rightarrow>
          (if x = 95 then map_option (Cons d) (int_digits cs)
           else map_option (Cons d) (int_digits (x # cs))))"

definition digits_value :: "nat list \<Rightarrow> nat" where
  "digits_value ds = foldl (\<lambda>a d. 10 * a + d) 0 ds"

text \<open>CPython's default limit on the number of digits \<open>int\<close> converts from text.\<close>

definition max_str_digits :: nat where
  "max_str_digits = 4300"

text \<open>
  \<open>int(s)\<close> for a string: surrounding whitespace is dropped, one sign \<open>+\<close> (43) or
  \<open>-\<close> (45) may lead, the digits follow. \<open>None\<close> is the \<open>ValueError\<close>.
\<close>

definition py_int :: "pystr \<Rightarrow> int option" where
  "py_int s =
     (let t = py_strip s;
          neg = (case t of [] \<Rightarrow> False | c # cs \<Rightarrow> c = 45);
          body = (case t of [] \<Rightarrow> [] | c # cs \<Rightarrow> if c = 43 \<or> c = 45 then cs else t)
      in case int_digits body of
           None \<Rightarrow> None
         | Some ds \<Rightarrow>
             if max_str_digits < length ds then None
             else Some (if neg then - int (digits_value ds) else int (digits_value ds)))"

section \<open>Exceptions and values\<close>

text \<open>
  A raised exception is a value: its class, as far as the \<open>except\<close> clauses of
  \<open>main.py\<close> tell classes apart (\<open>ValueError\<close> with its subclasses against every other
  subclass of \<open>Exception\<close>), and the text \<open>str(e)\<close> gives. A computation that may
  raise returns \<open>pyexc + 'a\<close> with \<open>Inl\<close> for the raise.
\<close>

datatype exc_class = ValueError | IndexError | AttributeError | TypeError | OtherException

datatype pyexc = PyExc (exc_class: exc_class) (exc_text: pystr)

text \<open>What \<open>get_correct_answer\<close> can hand back: an \<open>int\<close>, or \<open>None\<close>.\<close>

datatype pyval = PyNone | PyInt int

section \<open>The collaborators\<close>

text \<open>
  The completion API's reply as \<open>get_correct_answer\<close> reads it: \<open>response.choices\<close> is
  absent (\<open>None\<close>) or a list, and \<open>choices[0].message.content\<close> is a string, or
  \<open>None\<close> for every shape on which \<open>.message.content.strip()\<close> raises.
\<close>

datatype choice = Choice (message_content: "pystr option")

datatype completion = Completion (choices: "choice list option")

text \<open>
  A decoded JSON document. An object is the decoded \<open>dict\<close> as an association list;
  \<open>JNum\<close> stands for any number.
\<close>

datatype json =
    JNull
  | JBool bool
  | JNum int
  | JStr pystr
  | JArr "json list"
  | JObj "(pystr \<times> json) list"

text \<open>
  The search API's reply: the status code and what \<open>response.json()\<close> decodes,
  \<open>None\<close> when the body is not JSON.
\<close>

datatype http_reply = HttpReply (status_code: nat) (decoded: "json option")

text \<open>The six places where \<open>main.py\<close> calls the logger.\<close>

datatype log_site =
    Incoming
  | Processing
  | Success
  | ValidationFailure
  | InternalFailure
  | Completed

text \<open>
  Everything outside \<open>main.py\<close> that a request meets:
  \<^item> \<open>completion_api\<close>: \<open>client.chat.completions.create\<close> for a query: it raises, or
    returns a response (\<open>None\<close> for a falsy one);
  \<^item> \<open>search_api\<close>: \<open>httpx.get\<close> for a query: it raises, or returns a reply;
  \<^item> \<open>valid_url\<close>: whether \<open>HttpUrl(link)\<close> accepts the string \<open>link\<close>;
  \<^item> \<open>url_text\<close>: the text of the URL that \<open>HttpUrl(link)\<close> builds from an accepted
    \<open>link\<close>; the library normalises it, so it need not be \<open>link\<close> itself;
  \<^item> \<open>py_format\<close>: the text an f-string gives for a decoded JSON value;
  \<^item> \<open>logger\<close>: the outcome of the logger call at a site, \<open>Some e\<close> when it raises \<open>e\<close>;
  \<^item> \<open>validation_text\<close>: \<open>str(e)\<close> of the error a rejected \<open>PredictionResponse\<close> raises.
\<close>

record world =
  completion_api :: "pystr \<Rightarrow> pyexc + completion option"
  search_api :: "pystr \<Rightarrow> pyexc + http_reply"
  valid_url :: "pystr \<Rightarrow> bool"
  url_text :: "pystr \<Rightarrow> pystr"
  py_format :: "json \<Rightarrow> pystr"
  logger :: "log_site \<Rightarrow> pyexc option"
  validation_text :: pystr

section \<open>Answer resolution: \<open>get_correct_answer\<close>\<close>

text \<open>
  The body of the \<open>try\<close> block. With a truthy response and a non-empty choice list the
  last token of the first choice's text is converted by \<open>int\<close>; \<open>.strip()\<close> on a
  missing text, \<open>[-1]\<close> on an empty token list and \<open>int\<close> on a non-number raise.
  Otherwise control leaves the \<open>if\<close> and the function ends without a \<open>return\<close>,
  which yields \<open>None\<close>.
\<close>

definition resolve_try :: "pyexc + completion option \<Rightarrow> pyexc + pyval" where
  "resolve_try outcome =
     (case outcome of
        Inl e \<Rightarrow> Inl e
      | Inr None \<Rightarrow> Inr PyNone
      | Inr (Some response) \<Rightarrow>
          (case choices response of
             None \<Rightarrow> Inr PyNone
           | Some [] \<Rightarrow> Inr PyNone
           | Some (c # cs) \<Rightarrow>
               (case message_content c of
                  None \<Rightarrow> Inl (PyExc AttributeError [])
                | Some text \<Rightarrow>
                    (case py_split (py_strip text) of
                       [] \<Rightarrow> Inl (PyExc IndexError [])
                     | t # ts \<Rightarrow>
                         (case py_int (last (t # ts)) of
                            None \<Rightarrow> Inl (PyExc ValueError [])
                          | Some n \<Rightarrow> Inr (PyInt n))))))"

text \<open>\<open>except Exception\<close>: whatever was raised, the result is \<open>-1\<close>.\<close>

definition get_correct_answer :: "world \<Rightarrow> pystr \<Rightarrow> pyval" where
  "get_correct_answer w query =
     (case resolve_try (completion_api w query) of
        Inl e \<Rightarrow> PyInt (- 1)
      | Inr v \<Rightarrow> v)"

section \<open>Evidence retrieval: \<open>search_relevant_links\<close>\<close>

text \<open>The two fixed texts, as code points: the lead-in of a found list, and the apology.\<close>

definition lead_in :: pystr where
  "lead_in =
     [1056, 1077, 1079, 1091, 1083, 1100, 1090, 1072, 1090, 1099, 32, 1087, 1086, 1080,
      1089, 1082, 1072, 32, 1091, 1082, 1072, 1079, 1099, 1074, 1072, 1102, 1090, 32, 1085,
      1072, 32, 1089, 1083, 1077, 1076, 1091, 1102, 1097, 1080, 1077, 32, 1080, 1089, 1090,
      1086, 1095, 1085, 1080, 1082, 1080, 58]"

definition apology :: pystr where
  "apology =
     [1053, 1077, 32, 1091, 1076, 1072, 1083, 1086, 1089, 1100, 32, 1085, 1072, 1081, 1090,
      1080, 32, 1088, 1077, 1083, 1077, 1074, 1072, 1085, 1090, 1085, 1091, 1102, 32, 1080,
      1085, 1092, 1086, 1088, 1084, 1072, 1094, 1080, 1102, 46]"

text \<open>\<open>d.get(key)\<close> on a decoded object: the value, or \<open>None\<close> (here \<open>JNull\<close>).\<close>

definition dict_get :: "(pystr \<times> json) list \<Rightarrow> pystr \<Rightarrow> json" where
  "dict_get d key = (case map_of d key of None \<Rightarrow> JNull | Some v \<Rightarrow> v)"

text \<open>\<open>response.raise_for_status()\<close> passes on the 2xx codes only.\<close>

definition is_success :: "nat \<Rightarrow> bool" where
  "is_success code \<longleftrightarrow> 200 \<le> code \<and> code \<le> 299"

text \<open>
  \<open>HttpUrl(link)\<close>: it accepts a string that \<open>valid_url\<close> accepts and raises on
  everything else. The URL object it returns is represented by its text, \<open>url_text\<close>
  of the link.
\<close>

definition http_url :: "world \<Rightarrow> json \<Rightarrow> pyexc + pystr" where
  "http_url w link =
     (case link of
        JStr l \<Rightarrow> if valid_url w l then Inr (url_text w l) else Inl (PyExc ValueError [])
      | _ \<Rightarrow> Inl (PyExc ValueError []))"

text \<open>The line \<open>f"\n- {title}: {link}"\<close> (10 is the newline).\<close>

definition reasoning_line :: "world \<Rightarrow> json \<Rightarrow> json \<Rightarrow> pystr" where
  "reasoning_line w title link = [10, 45, 32] @ py_format w title @ [58, 32] @ py_format w link"

text \<open>
  The \<open>for\<close> loop over the items, with \<open>sources\<close> and \<open>reasoning\<close> as they stand so
  far. \<open>item.get\<close> raises on anything but an object.
\<close>

fun items_loop :: "world \<Rightarrow> json list \<Rightarrow> pystr list \<times> pystr \<Rightarrow> pyexc + pystr list \<times> pystr" where
  "items_loop w [] acc = Inr acc"
| "items_loop w (item # rest) (sources, reasoning) =
     (case item of
        JObj d \<Rightarrow>
          (case http_url w (dict_get d (ascii ''link'')) of
             Inl e \<Rightarrow> Inl e
           | Inr url \<Rightarrow>
               items_loop w rest
                 (sources @ [url],
                  reasoning @ reasoning_line w (dict_get d (ascii ''title'')) (dict_get d (ascii ''link''))))
      | _ \<Rightarrow> Inl (PyExc AttributeError []))"

text \<open>
  \<open>data.get("items", [])[:3]\<close> as the list the loop runs over: the default is the empty
  list; a list is cut to three; a string is cut to three characters, each a string of
  its own; nothing else can be sliced.
\<close>

definition first_items :: "(pystr \<times> json) list \<Rightarrow> pyexc + json list" where
  "first_items d =
     (case map_of d (ascii ''items'') of
        None \<Rightarrow> Inr []
      | Some (JArr items) \<Rightarrow> Inr (take 3 items)
      | Some (JStr s) \<Rightarrow> Inr (map (\<lambda>c. JStr [c]) (take 3 s))
      | Some _ \<Rightarrow> Inl (PyExc TypeError []))"

text \<open>The body of the \<open>try\<close> block.\<close>

definition search_try :: "world \<Rightarrow> pystr \<Rightarrow> pyexc + pystr list \<times> pystr" where
  "search_try w query =
     (case search_api w query of
        Inl e \<Rightarrow> Inl e
      | Inr response \<Rightarrow>
          if \<not> is_success (status_code response) then Inl (PyExc OtherException [])
          else
            (case decoded response of
               None \<Rightarrow> Inl (PyExc ValueError [])
             | Some (JObj d) \<Rightarrow>
                 (case first_items d of
                    Inl e \<Rightarrow> Inl e
                  | Inr items \<Rightarrow> items_loop w items ([], lead_in))
             | Some _ \<Rightarrow> Inl (PyExc AttributeError [])))"

text \<open>\<open>except Exception\<close>: whatever was raised, the result is the empty list and the apology.\<close>

definition search_relevant_links :: "world \<Rightarrow> pystr \<Rightarrow> pystr list \<times> pystr" where
  "search_relevant_links w query =
     (case search_try w query of
        Inl e \<Rightarrow> ([], apology)
      | Inr r \<Rightarrow> r)"

section \<open>The request pipeline\<close>

record prediction_request =
  req_id :: json
  req_query :: pystr

record prediction_response =
  resp_id :: json
  answer :: int
  reasoning :: pystr
  sources :: "pystr list"

text \<open>
  Modelled from the spec: the class \<open>PredictionRequest\<close> of \<open>schemas/request.py\<close>,
  which is not among the sources. The spec gives its shape: an \<open>id\<close> that is a string
  or a number, and a \<open>query\<close> that is text; the check is of field presence and types.
  \<open>None\<close> is the rejected body.
\<close>

definition validate_request :: "json \<Rightarrow> prediction_request option" where
  "validate_request payload =
     (case payload of
        JObj d \<Rightarrow>
          (case (map_of d (ascii ''id''), map_of d (ascii ''query'')) of
             (Some (JStr i), Some (JStr q)) \<Rightarrow> Some \<lparr>req_id = JStr i, req_query = q\<rparr>
           | (Some (JNum i), Some (JStr q)) \<Rightarrow> Some \<lparr>req_id = JNum i, req_query = q\<rparr>
           | _ \<Rightarrow> None)
      | _ \<Rightarrow> None)"

text \<open>
  Modelled from the spec: the values the field \<open>answer\<close> of a \<open>PredictionResponse\<close>
  admits. The spec's data model gives it as an integer from 1 to 10, or the sentinel
  \<open>-1\<close>.
\<close>

definition answer_in_range :: "int \<Rightarrow> bool" where
  "answer_in_range n \<longleftrightarrow> (1 \<le> n \<and> n \<le> 10) \<or> n = - 1"

text \<open>
  Modelled from the spec: the class \<open>PredictionResponse\<close> of \<open>schemas/request.py\<close>,
  which is not among the sources. The spec gives its fields: \<open>id\<close> copied from the
  request, \<open>answer\<close> an integer from 1 to 10 or \<open>-1\<close>, \<open>reasoning\<close> a string,
  \<open>sources\<close> a sequence of at most three URLs. An invalid field value found when the
  response is assembled is a validation error, which is a \<open>ValueError\<close>: so is an
  \<open>answer\<close> that is \<open>None\<close> or outside the range. The \<open>sources\<close> and \<open>reasoning\<close>
  that \<open>predict\<close> hands over come from \<open>search_relevant_links\<close> and are always of
  that shape.
\<close>

definition PredictionResponse ::
  "world \<Rightarrow> json \<Rightarrow> pyval \<Rightarrow> pystr \<Rightarrow> pystr list \<Rightarrow> pyexc + prediction_response" where
  "PredictionResponse w i a r s =
     (case a of
        PyNone \<Rightarrow> Inl (PyExc ValueError (validation_text w))
      | PyInt n \<Rightarrow>
          if answer_in_range n then Inr \<lparr>resp_id = i, answer = n, reasoning = r, sources = s\<rparr>
          else Inl (PyExc ValueError (validation_text w)))"

text \<open>How a call of \<open>predict\<close> ends: it returns, raises \<open>HTTPException\<close>, or lets another
  exception out.\<close>

datatype handler_outcome =
    Returned prediction_response
  | HTTPException nat pystr
  | Escaped pyexc

text \<open>The body of the \<open>try\<close> block of \<open>predict\<close>.\<close>

definition predict_try :: "world \<Rightarrow> prediction_request \<Rightarrow> pyexc + prediction_response" where
  "predict_try w body =
     (case logger w Processing of
        Some e \<Rightarrow> Inl e
      | None \<Rightarrow>
          (let a = get_correct_answer w (req_query body);
               (s, r) = search_relevant_links w (req_query body)
           in case PredictionResponse w (req_id body) a r s of
                Inl e \<Rightarrow> Inl e
              | Inr response \<Rightarrow>
                  (case logger w Success of
                     Some e \<Rightarrow> Inl e
                   | None \<Rightarrow> Inr response)))"

text \<open>
  \<open>predict\<close> with its two handlers: \<open>except ValueError\<close> first, \<open>except Exception\<close>
  second. Each handler logs before it raises \<open>HTTPException\<close>; when that log call
  raises, its exception leaves \<open>predict\<close> instead.
\<close>

definition predict :: "world \<Rightarrow> prediction_request \<Rightarrow> handler_outcome" where
  "predict w body =
     (case predict_try w body of
        Inr response \<Rightarrow> Returned response
      | Inl e \<Rightarrow>
          if exc_class e = ValueError then
            (case logger w ValidationFailure of
               Some e' \<Rightarrow> Escaped e'
             | None \<Rightarrow> HTTPException 400 (exc_text e))
          else
            (case logger w InternalFailure of
               Some e' \<Rightarrow> Escaped e'
             | None \<Rightarrow> HTTPException 500 (ascii ''Internal server error'')))"

text \<open>
  What the application sends: a prediction, the object \<open>{"detail": text}\<close> of an
  \<open>HTTPException\<close>, or the framework's list of request validation errors.
\<close>

datatype http_body =
    PredictionBody prediction_response
  | DetailBody pystr
  | RequestErrorsBody

text \<open>
  The outcome of one request: a response with its status, or an exception that no code of
  \<open>main.py\<close> handles.
\<close>

datatype app_outcome =
    Response nat http_body
  | Unhandled pyexc

text \<open>
  The route \<open>@app.post("/api/request")\<close> with its parameter \<open>body: PredictionRequest\<close>.
  The framework validates the JSON body before it calls \<open>predict\<close>; a body it rejects is
  answered with 422 by the framework itself, and \<open>main.py\<close> registers no handler that
  would change that. A returned value is sent with 200, an \<open>HTTPException\<close> with its own
  status and detail.
\<close>

definition api_request :: "world \<Rightarrow> json \<Rightarrow> app_outcome" where
  "api_request w payload =
     (case validate_request payload of
        None \<Rightarrow> Response 422 RequestErrorsBody
      | Some body \<Rightarrow>
          (case predict w body of
             Returned response \<Rightarrow> Response 200 (PredictionBody response)
           | HTTPException code detail \<Rightarrow> Response code (DetailBody detail)
           | Escaped e \<Rightarrow> Unhandled e))"

text \<open>
  The middleware \<open>log_requests\<close> around \<open>call_next\<close>: it logs, lets the route answer,
  logs again and sends the same status and body on. It has no \<open>try\<close>: an exception of
  either log call, or one that the route lets out, is not handled.
\<close>

definition log_requests :: "world \<Rightarrow> app_outcome \<Rightarrow> app_outcome" where
  "log_requests w call_next =
     (case logger w Incoming of
        Some e \<Rightarrow> Unhandled e
      | None \<Rightarrow>
          (case call_next of
             Unhandled e \<Rightarrow> Unhandled e
           | Response code content \<Rightarrow>
               (case logger w Completed of
                  Some e \<Rightarrow> Unhandled e
                | None \<Rightarrow> Response code content)))"

text \<open>A POST to \<open>/api/request\<close> with the JSON body \<open>payload\<close>.\<close>

definition serve :: "world \<Rightarrow> json \<Rightarrow> app_outcome" where
  "serve w payload = log_requests w (api_request w payload)"

section \<open>Notions the properties are stated with\<close>

text \<open>
  The answer the first choice stands for: the integer \<open>int\<close> reads from the last
  whitespace-delimited token of its text, and \<open>-1\<close> when the text is missing, has no
  token, or the token is not an integer.
\<close>

definition resolved :: "choice \<Rightarrow> int" where
  "resolved c =
     (case message_content c of
        None \<Rightarrow> - 1
      | Some text \<Rightarrow>
          (case py_split text of
             [] \<Rightarrow> - 1
           | t # ts \<Rightarrow> (case py_int (last (t # ts)) of None \<Rightarrow> - 1 | Some n \<Rightarrow> n)))"

text \<open>A result item that the loop can process: an object whose \<open>link\<close> is an accepted URL.\<close>

definition item_ok :: "world \<Rightarrow> json \<Rightarrow> bool" where
  "item_ok w item =
     (case item of
        JObj d \<Rightarrow> (case dict_get d (ascii ''link'') of JStr l \<Rightarrow> valid_url w l | _ \<Rightarrow> False)
      | _ \<Rightarrow> False)"

text \<open>The URL the loop stores for such an item.\<close>

definition item_url :: "world \<Rightarrow> json \<Rightarrow> pystr" where
  "item_url w item =
     (case item of
        JObj d \<Rightarrow> (case dict_get d (ascii ''link'') of JStr l \<Rightarrow> url_text w l | _ \<Rightarrow> [])
      | _ \<Rightarrow> [])"

definition item_line :: "world \<Rightarrow> json \<Rightarrow> pystr" where
  "item_line w item =
     (case item of
        JObj d \<Rightarrow> reasoning_line w (dict_get d (ascii ''title'')) (dict_get d (ascii ''link''))
      | _ \<Rightarrow> [])"

text \<open>
  A reply body that the \<open>try\<close> block cannot read: it is not JSON, or not an object, or
  its \<open>items\<close> is neither a list nor the empty string, or one of the first three items
  cannot be processed.
\<close>

definition unreadable :: "world \<Rightarrow> json option \<Rightarrow> bool" where
  "unreadable w payload =
     (case payload of
        None \<Rightarrow> True
      | Some (JObj d) \<Rightarrow>
          (case map_of d (ascii ''items'') of
             None \<Rightarrow> False
           | Some (JArr items) \<Rightarrow> \<not> list_all (item_ok w) (take 3 items)
           | Some (JStr s) \<Rightarrow> s \<noteq> []
           | Some _ \<Rightarrow> True)
      | Some _ \<Rightarrow> True)"

text \<open>
  The search API call fails for the code: transport error, status outside 2xx, or a body
  it cannot read.
\<close>

definition search_fails :: "world \<Rightarrow> pystr \<Rightarrow> bool" where
  "search_fails w query =
     (case search_api w query of
        Inl e \<Rightarrow> True
      | Inr reply \<Rightarrow> \<not> is_success (status_code reply) \<or> unreadable w (decoded reply))"

text \<open>
  The payload as the spec describes it: an object whose \<open>items\<close>, when present, is a
  list of results, each an object with a text \<open>title\<close> and a \<open>link\<close> that is a URL.
  Every other body is a malformed payload.
\<close>

definition result_item :: "world \<Rightarrow> json \<Rightarrow> bool" where
  "result_item w item =
     (case item of
        JObj d \<Rightarrow>
          (case (dict_get d (ascii ''title''), dict_get d (ascii ''link'')) of
             (JStr t, JStr l) \<Rightarrow> valid_url w l
           | _ \<Rightarrow> False)
      | _ \<Rightarrow> False)"

definition well_formed_payload :: "world \<Rightarrow> json option \<Rightarrow> bool" where
  "well_formed_payload w payload =
     (case payload of
        Some (JObj d) \<Rightarrow>
          (case map_of d (ascii ''items'') of
             None \<Rightarrow> True
           | Some (JArr items) \<Rightarrow> list_all (result_item w) items
           | Some _ \<Rightarrow> False)
      | _ \<Rightarrow> False)"

section \<open>Example inputs\<close>

text \<open>A logger on which every call succeeds.\<close>

definition quiet :: "log_site \<Rightarrow> pyexc option" where
  "quiet site = None"

text \<open>
  Stand-ins for the formatter, the URL check and the URL's text, right on the values the
  examples use: strings and \<open>None\<close> for the first; the links \<open>https://itmo.ru\<close>,
  \<open>https://abit.itmo.ru/\<close> and \<open>no url\<close> for the other two. The URL built from
  \<open>https://itmo.ru\<close> reads \<open>https://itmo.ru/\<close>.
\<close>

definition example_format :: "json \<Rightarrow> pystr" where
  "example_format v = (case v of JStr s \<Rightarrow> s | _ \<Rightarrow> ascii ''None'')"

definition example_valid_url :: "pystr \<Rightarrow> bool" where
  "example_valid_url l \<longleftrightarrow> take 8 l = ascii ''https://''"

definition example_url_text :: "pystr \<Rightarrow> pystr" where
  "example_url_text l = (if l = ascii ''https://itmo.ru'' then ascii ''https://itmo.ru/'' else l)"

text \<open>
  The completion API answers \<open>The answer is 42\<close>, the search API is unreachable, the
  logger works.
\<close>

definition world_42 :: world where
  "world_42 =
     \<lparr>completion_api = (\<lambda>q. Inr (Some (Completion (Some [Choice (Some (ascii ''The answer is 42''))])))),
      search_api = (\<lambda>q. Inl (PyExc OtherException (ascii ''ConnectError''))),
      valid_url = example_valid_url,
      url_text = example_url_text,
      py_format = example_format,
      logger = quiet,
      validation_text = ascii ''answer: Input should be a valid integer''\<rparr>"

text \<open>As \<open>world_42\<close>, but the completion API answers \<open>The answer is 2\<close>.\<close>

definition world_2 :: world where
  "world_2 =
     world_42\<lparr>completion_api :=
       (\<lambda>q. Inr (Some (Completion (Some [Choice (Some (ascii ''The answer is 2''))]))))\<rparr>"

text \<open>As \<open>world_42\<close>, but the completion API returns an empty choice list.\<close>

definition world_no_choices :: world where
  "world_no_choices = world_42\<lparr>completion_api := (\<lambda>q. Inr (Some (Completion (Some []))))\<rparr>"

definition good_item :: json where
  "good_item = JObj [(ascii ''title'', JStr (ascii ''ITMO'')), (ascii ''link'', JStr (ascii ''https://itmo.ru''))]"

definition other_item :: json where
  "other_item = JObj [(ascii ''title'', JStr (ascii ''Abit'')), (ascii ''link'', JStr (ascii ''https://abit.itmo.ru/''))]"

definition bad_item :: json where
  "bad_item = JObj [(ascii ''title'', JStr (ascii ''Bad'')), (ascii ''link'', JStr (ascii ''no url''))]"

text \<open>As \<open>world_2\<close>, but the search API returns two good results.\<close>

definition world_two_links :: world where
  "world_two_links =
     world_2\<lparr>search_api :=
       (\<lambda>q. Inr (HttpReply 200 (Some (JObj [(ascii ''items'', JArr [good_item, other_item])]))))\<rparr>"

text \<open>As \<open>world_2\<close>, but the search API returns a good result followed by one with a bad link.\<close>

definition world_bad_link :: world where
  "world_bad_link =
     world_2\<lparr>search_api :=
       (\<lambda>q. Inr (HttpReply 200 (Some (JObj [(ascii ''items'', JArr [good_item, bad_item])]))))\<rparr>"

text \<open>As \<open>world_42\<close>, but the first log call of \<open>predict\<close> raises an exception that is not a
  \<open>ValueError\<close>.\<close>

definition world_log_down :: world where
  "world_log_down =
     world_42\<lparr>logger :=
       (\<lambda>site. if site = Processing then Some (PyExc OtherException (ascii ''log queue is full''))
               else None)\<rparr>"

text \<open>As \<open>world_42\<close>, but the first log call of \<open>predict\<close> raises the \<open>ValueError\<close> of a write
  to a closed file.\<close>

definition world_log_closed :: world where
  "world_log_closed =
     world_42\<lparr>logger :=
       (\<lambda>site. if site = Processing then Some (PyExc ValueError (ascii ''I/O operation on closed file''))
               else None)\<rparr>"

definition request_1 :: json where
  "request_1 = JObj [(ascii ''id'', JNum 1), (ascii ''query'', JStr (ascii ''ITMO?''))]"

definition request_no_query :: json where
  "request_no_query = JObj [(ascii ''id'', JNum 1)]"

text \<open>What \<open>world_2\<close> answers to \<open>request_1\<close>.\<close>

definition response_2 :: prediction_response where
  "response_2 = \<lparr>resp_id = JNum 1, answer = 2, reasoning = apology, sources = []\<rparr>"

text \<open>
  As \<open>world_2\<close>, but the last log call of \<open>predict\<close>, the one after the response has
  been built, raises an exception that is not a \<open>ValueError\<close>.
\<close>

definition world_log_late :: world where
  "world_log_late =
     world_2\<lparr>logger :=
       (\<lambda>site. if site = Success then Some (PyExc OtherException (ascii ''log queue is full''))
               else None)\<rparr>"

text \<open>As \<open>world_2\<close>, but the search API returns the body \<open>{"items": ""}\<close>.\<close>

definition items_text_payload :: json where
  "items_text_payload = JObj [(ascii ''items'', JStr [])]"

definition world_items_text :: world where
  "world_items_text =
     world_2\<lparr>search_api := (\<lambda>q. Inr (HttpReply 200 (Some items_text_payload)))\<rparr>"

section \<open>Splitting and stripping\<close>

lemma split_aux_spaces:
  "\<forall>z \<in> set zs. isspace z \<Longrightarrow> split_aux cur zs = (if cur = [] then [] else [rev cur])"
  by (induction zs arbitrary: cur) auto

lemma split_aux_trailing:
  "\<forall>z \<in> set zs. isspace z \<Longrightarrow> split_aux cur (ys @ zs) = split_aux cur ys"
  by (induction ys arbitrary: cur) (auto simp: split_aux_spaces)

lemma split_aux_leading: "split_aux [] (dropWhile isspace s) = split_aux [] s"
  by (induction s) auto

lemma strip_decompose:
  "\<exists>zs. (\<forall>z \<in> set zs. isspace z) \<and> dropWhile isspace s = py_strip s @ zs"
proof -
  let ?t = "dropWhile isspace s"
  have "rev ?t = takeWhile isspace (rev ?t) @ dropWhile isspace (rev ?t)"
    by simp
  then have "?t = rev (dropWhile isspace (rev ?t)) @ rev (takeWhile isspace (rev ?t))"
    by (metis rev_append rev_rev_ident)
  moreover have "\<forall>z \<in> set (rev (takeWhile isspace (rev ?t))). isspace z"
    by (auto dest: set_takeWhileD)
  ultimately show ?thesis
    unfolding py_strip_def by blast
qed

text \<open>\<open>.strip()\<close> before \<open>.split()\<close> changes nothing: the tokens are those of the text itself.\<close>

lemma py_split_strip: "py_split (py_strip s) = py_split s"
proof -
  obtain zs where zs: "\<forall>z \<in> set zs. isspace z" "dropWhile isspace s = py_strip s @ zs"
    using strip_decompose by blast
  have "py_split s = split_aux [] (dropWhile isspace s)"
    by (simp add: py_split_def split_aux_leading)
  also have "\<dots> = split_aux [] (py_strip s)"
    using zs by (simp add: split_aux_trailing)
  finally show ?thesis
    by (simp add: py_split_def)
qed

section \<open>Facts about answer resolution\<close>

lemma get_correct_answer_choices:
  assumes "completion_api w q = Inr (Some (Completion (Some (c # cs))))"
  shows "get_correct_answer w q = PyInt (resolved c)"
  using assms
  by (simp add: get_correct_answer_def resolve_try_def resolved_def py_split_strip
      split: option.splits list.splits)

section \<open>Facts about evidence retrieval\<close>

lemma items_loop_ok:
  "list_all (item_ok w) items \<Longrightarrow>
   items_loop w items (s, r) = Inr (s @ map (item_url w) items, r @ concat (map (item_line w) items))"
proof (induction items arbitrary: s r)
  case Nil
  then show ?case by simp
next
  case (Cons item rest)
  from Cons.prems have ok: "item_ok w item" and rest: "list_all (item_ok w) rest"
    by simp_all
  from ok obtain d l where item: "item = JObj d" and link: "dict_get d (ascii ''link'') = JStr l"
    and valid: "valid_url w l"
    by (auto simp: item_ok_def split: json.splits)
  show ?case
    using Cons.IH [OF rest] item link valid
    by (simp add: http_url_def item_url_def item_line_def)
qed

lemma items_loop_bad:
  "\<not> list_all (item_ok w) items \<Longrightarrow> \<exists>e. items_loop w items (s, r) = Inl e"
proof (induction items arbitrary: s r)
  case Nil
  then show ?case by simp
next
  case (Cons item rest)
  show ?case
  proof (cases "item_ok w item")
    case True
    with Cons.prems have "\<not> list_all (item_ok w) rest" by simp
    from Cons.IH [OF this] True show ?thesis
      by (auto simp: item_ok_def http_url_def split: json.splits)
  next
    case False
    then show ?thesis
      by (auto simp: item_ok_def http_url_def split: json.splits)
  qed
qed

lemma chars_ok_iff: "list_all (item_ok w) (map (\<lambda>c. JStr [c]) (take 3 s)) \<longleftrightarrow> s = []"
  by (cases s) (simp_all add: item_ok_def)

lemma unreadable_object:
  "unreadable w (Some (JObj d)) \<longleftrightarrow>
     (case first_items d of Inl e \<Rightarrow> True | Inr items \<Rightarrow> \<not> list_all (item_ok w) items)"
proof (cases "map_of d (ascii ''items'')")
  case None
  then show ?thesis by (simp add: unreadable_def first_items_def)
next
  case (Some v)
  then show ?thesis
    by (cases v) (simp_all add: unreadable_def first_items_def chars_ok_iff)
qed

lemma search_try_object:
  assumes "search_api w q = Inr reply" "is_success (status_code reply)"
    and "decoded reply = Some (JObj d)"
  shows "search_try w q =
     (case first_items d of Inl e \<Rightarrow> Inl e | Inr items \<Rightarrow> items_loop w items ([], lead_in))"
  using assms by (simp add: search_try_def)

lemma search_try_fails:
  assumes "search_fails w q"
  shows "\<exists>e. search_try w q = Inl e"
proof (cases "search_api w q")
  case (Inl e)
  then show ?thesis by (simp add: search_try_def)
next
  case (Inr reply)
  show ?thesis
  proof (cases "is_success (status_code reply)")
    case False
    with Inr show ?thesis by (simp add: search_try_def)
  next
    case True
    with assms Inr have bad: "unreadable w (decoded reply)"
      by (simp add: search_fails_def)
    show ?thesis
    proof (cases "decoded reply")
      case None
      with Inr True show ?thesis by (simp add: search_try_def)
    next
      case (Some j)
      show ?thesis
      proof (cases "\<exists>d. j = JObj d")
        case False
        with Inr True Some show ?thesis
          by (cases j) (simp_all add: search_try_def)
      next
        case True
        then obtain d where j: "j = JObj d" by blast
        note st = search_try_object [OF Inr \<open>is_success (status_code reply)\<close> Some [unfolded j]]
        from bad Some j have m: "unreadable w (Some (JObj d))" by simp
        show ?thesis
        proof (cases "first_items d")
          case (Inl e)
          with st show ?thesis by simp
        next
          case (Inr items)
          with m have "\<not> list_all (item_ok w) items"
            by (simp add: unreadable_object)
          from items_loop_bad [OF this] st Inr show ?thesis by simp
        qed
      qed
    qed
  qed
qed

lemma search_try_succeeds:
  assumes "\<not> search_fails w q"
  shows "\<exists>items. length items \<le> 3 \<and> list_all (item_ok w) items \<and>
           search_try w q = Inr (map (item_url w) items, lead_in @ concat (map (item_line w) items))"
proof (cases "search_api w q")
  case (Inl e)
  with assms show ?thesis by (simp add: search_fails_def)
next
  case (Inr reply)
  with assms have succ: "is_success (status_code reply)" and good: "\<not> unreadable w (decoded reply)"
    by (simp_all add: search_fails_def)
  from good obtain d where dec: "decoded reply = Some (JObj d)"
    by (auto simp: unreadable_def split: option.splits json.splits)
  note st = search_try_object [OF Inr succ dec]
  from good dec obtain items where fi: "first_items d = Inr items" and ok: "list_all (item_ok w) items"
    by (auto simp: unreadable_object split: sum.splits)
  have "length items \<le> 3"
    using fi by (auto simp: first_items_def split: option.splits json.splits)
  moreover have "search_try w q = Inr (map (item_url w) items, lead_in @ concat (map (item_line w) items))"
    using st fi items_loop_ok [OF ok, of "[]" lead_in] by simp
  ultimately show ?thesis using ok by blast
qed

lemma search_relevant_links_fails:
  "search_fails w q \<Longrightarrow> search_relevant_links w q = ([], apology)"
  using search_try_fails [of w q] by (auto simp: search_relevant_links_def)

lemma search_relevant_links_succeeds:
  assumes "\<not> search_fails w q"
  shows "\<exists>items. length items \<le> 3 \<and> list_all (item_ok w) items \<and>
           search_relevant_links w q = (map (item_url w) items, lead_in @ concat (map (item_line w) items))"
  using search_try_succeeds [OF assms] by (auto simp: search_relevant_links_def)

lemma item_url_built: "item_ok w item \<Longrightarrow> \<exists>l. valid_url w l \<and> item_url w item = url_text w l"
  by (auto simp: item_ok_def item_url_def split: json.splits)

lemma sources_built:
  assumes "u \<in> set (fst (search_relevant_links w q))"
  shows "\<exists>l. valid_url w l \<and> u = url_text w l"
proof (cases "search_fails w q")
  case True
  with assms show ?thesis by (simp add: search_relevant_links_fails)
next
  case False
  from search_relevant_links_succeeds [OF False] obtain items
    where ok: "list_all (item_ok w) items"
      and r: "search_relevant_links w q =
        (map (item_url w) items, lead_in @ concat (map (item_line w) items))"
    by blast
  from assms r obtain item where "item \<in> set items" "u = item_url w item" by auto
  with ok show ?thesis by (auto simp: list_all_iff dest: item_url_built)
qed

lemma sources_length: "length (fst (search_relevant_links w q)) \<le> 3"
proof (cases "search_fails w q")
  case True
  then show ?thesis by (simp add: search_relevant_links_fails)
next
  case False
  from search_relevant_links_succeeds [OF this] show ?thesis by auto
qed

lemma lead_in_not_apology: "lead_in @ rest \<noteq> apology"
  by (simp add: lead_in_def apology_def)

lemma apology_means_empty:
  "snd (search_relevant_links w q) = apology \<Longrightarrow> fst (search_relevant_links w q) = []"
proof (cases "search_fails w q")
  case True
  then show ?thesis by (simp add: search_relevant_links_fails)
next
  case False
  assume a: "snd (search_relevant_links w q) = apology"
  from search_relevant_links_succeeds [OF False] a lead_in_not_apology show ?thesis by auto
qed

lemma search_fails_list:
  assumes "search_api w q = Inr (HttpReply code (Some (JObj d)))" "is_success code"
    and "map_of d (ascii ''items'') = Some (JArr its)"
  shows "search_fails w q \<longleftrightarrow> \<not> list_all (item_ok w) (take 3 its)"
  using assms by (simp add: search_fails_def unreadable_def)

lemma search_list_ok:
  assumes "search_api w q = Inr (HttpReply code (Some (JObj d)))" "is_success code"
    and "map_of d (ascii ''items'') = Some (JArr its)"
    and "list_all (item_ok w) (take 3 its)"
  shows "search_relevant_links w q =
     (map (item_url w) (take 3 its), lead_in @ concat (map (item_line w) (take 3 its)))"
  using assms items_loop_ok [OF assms(4), of "[]" lead_in]
  by (simp add: search_relevant_links_def search_try_def first_items_def)

section \<open>Facts about the pipeline\<close>

lemma predict_try_InrD:
  assumes "predict_try w body = Inr r"
  shows "get_correct_answer w (req_query body) = PyInt (answer r)"
    and "resp_id r = req_id body"
    and "search_relevant_links w (req_query body) = (sources r, reasoning r)"
    and "answer_in_range (answer r)"
  using assms
  by (auto simp: predict_try_def PredictionResponse_def Let_def
      split: option.splits pyval.splits prod.splits sum.splits if_splits)

lemma predict_try_quiet:
  assumes "logger w Processing = None" "logger w Success = None"
    and "get_correct_answer w (req_query body) = PyInt n" "answer_in_range n"
    and "search_relevant_links w (req_query body) = (s, t)"
  shows "predict_try w body = Inr \<lparr>resp_id = req_id body, answer = n, reasoning = t, sources = s\<rparr>"
  using assms by (simp add: predict_try_def PredictionResponse_def)

lemma predict_ReturnedD: "predict w body = Returned r \<Longrightarrow> predict_try w body = Inr r"
  by (auto simp: predict_def split: sum.splits option.splits if_splits)

lemma api_request_200D:
  assumes "api_request w payload = Response 200 content"
  shows "\<exists>body r. validate_request payload = Some body \<and> predict w body = Returned r \<and>
           content = PredictionBody r"
proof (cases "validate_request payload")
  case None
  with assms show ?thesis by (simp add: api_request_def)
next
  case (Some body)
  show ?thesis
  proof (cases "predict w body")
    case (Returned r)
    with assms Some show ?thesis by (simp add: api_request_def)
  next
    case (HTTPException code detail)
    then have "code = 400 \<or> code = 500"
      by (auto simp: predict_def split: sum.splits option.splits if_splits)
    with assms Some HTTPException show ?thesis by (auto simp: api_request_def)
  next
    case (Escaped e)
    with assms Some show ?thesis by (simp add: api_request_def)
  qed
qed

lemma log_requests_ResponseD:
  "log_requests w inner = Response code content \<Longrightarrow> inner = Response code content"
  by (auto simp: log_requests_def split: option.splits app_outcome.splits)

lemma log_requests_quiet:
  "logger w Incoming = None \<Longrightarrow> logger w Completed = None \<Longrightarrow>
   log_requests w (Response code content) = Response code content"
  by (simp add: log_requests_def)

lemma serve_200D:
  assumes "serve w payload = Response 200 (PredictionBody r)"
  shows "\<exists>body. validate_request payload = Some body \<and> predict_try w body = Inr r"
proof -
  from assms have "api_request w payload = Response 200 (PredictionBody r)"
    by (simp add: serve_def log_requests_ResponseD)
  from api_request_200D [OF this] show ?thesis
    by (auto dest: predict_ReturnedD)
qed

lemma validate_request_missing_query:
  "map_of d (ascii ''query'') = None \<Longrightarrow> validate_request (JObj d) = None"
  by (simp add: validate_request_def split: option.splits json.splits)

section \<open>The examples, evaluated\<close>

lemmas text_eval =
  ascii_def isspace_def py_strip_def py_split_def py_decimal_def nd_zeros_def digits_value_def
  max_str_digits_def py_int_def Let_def

lemma world_42_fields:
  "completion_api world_42 q = Inr (Some (Completion (Some [Choice (Some (ascii ''The answer is 42''))])))"
  "search_api world_42 q = Inl (PyExc OtherException (ascii ''ConnectError''))"
  "logger world_42 site = None"
  by (simp_all add: world_42_def quiet_def)

lemma resolved_42: "resolved (Choice (Some (ascii ''The answer is 42''))) = 42"
  by (simp add: resolved_def text_eval)

lemma validate_request_1:
  "validate_request request_1 = Some \<lparr>req_id = JNum 1, req_query = ascii ''ITMO?''\<rparr>"
  by (simp add: validate_request_def request_1_def ascii_def)

lemma search_fails_unreachable: "search_api w q = Inl e \<Longrightarrow> search_fails w q"
  by (simp add: search_fails_def)

lemma serve_quiet:
  assumes "validate_request payload = Some body"
    and "logger w Incoming = None" "logger w Processing = None"
    and "logger w Success = None" "logger w Completed = None"
    and "get_correct_answer w (req_query body) = PyInt n" "answer_in_range n"
    and "search_relevant_links w (req_query body) = (s, t)"
  shows "serve w payload =
     Response 200 (PredictionBody \<lparr>resp_id = req_id body, answer = n, reasoning = t, sources = s\<rparr>)"
  using assms predict_try_quiet [OF assms(3,4,6,7,8)]
  by (simp add: serve_def api_request_def predict_def log_requests_def)

lemma world_2_fields:
  "completion_api world_2 q = Inr (Some (Completion (Some [Choice (Some (ascii ''The answer is 2''))])))"
  "search_api world_2 q = Inl (PyExc OtherException (ascii ''ConnectError''))"
  "logger world_2 site = None"
  by (simp_all add: world_2_def world_42_def quiet_def)

lemma resolved_2: "resolved (Choice (Some (ascii ''The answer is 2''))) = 2"
  by (simp add: resolved_def text_eval)

lemma answer_world_2: "get_correct_answer world_2 q = PyInt 2"
  using get_correct_answer_choices [OF world_2_fields(1), of q] by (simp add: resolved_2)

lemma search_world_2: "search_relevant_links world_2 q = ([], apology)"
  by (rule search_relevant_links_fails) (simp add: search_fails_unreachable world_2_fields)

lemma in_range_2: "answer_in_range 2"
  by (simp add: answer_in_range_def)

lemma serve_world_2: "serve world_2 request_1 = Response 200 (PredictionBody response_2)"
  using serve_quiet [OF validate_request_1, of world_2 2 "[]" apology]
  by (simp add: world_2_fields answer_world_2 search_world_2 in_range_2 response_2_def)

lemma world_two_links_fields:
  "search_api world_two_links q =
     Inr (HttpReply 200 (Some (JObj [(ascii ''items'', JArr [good_item, other_item])])))"
  "valid_url world_two_links = example_valid_url"
  "url_text world_two_links = example_url_text"
  by (simp_all add: world_two_links_def world_2_def world_42_def)

lemma world_bad_link_fields:
  "search_api world_bad_link q =
     Inr (HttpReply 200 (Some (JObj [(ascii ''items'', JArr [good_item, bad_item])])))"
  "valid_url world_bad_link = example_valid_url"
  "url_text world_bad_link = example_url_text"
  by (simp_all add: world_bad_link_def world_2_def world_42_def)

lemma example_items:
  "valid_url w = example_valid_url \<Longrightarrow> item_ok w good_item"
  "valid_url w = example_valid_url \<Longrightarrow> item_ok w other_item"
  "valid_url w = example_valid_url \<Longrightarrow> \<not> item_ok w bad_item"
  "url_text w = example_url_text \<Longrightarrow> item_url w good_item = ascii ''https://itmo.ru/''"
  "url_text w = example_url_text \<Longrightarrow> item_url w other_item = ascii ''https://abit.itmo.ru/''"
  "dict_get [(ascii ''title'', JStr (ascii ''Bad'')), (ascii ''link'', JStr (ascii ''no url''))] (ascii ''link'')
     = JStr (ascii ''no url'')"
  "\<not> example_valid_url (ascii ''no url'')"
  "example_valid_url (ascii ''https://itmo.ru'')"
  "example_valid_url (ascii ''https://abit.itmo.ru/'')"
  "example_url_text (ascii ''https://itmo.ru'') = ascii ''https://itmo.ru/''"
  "example_url_text (ascii ''https://abit.itmo.ru/'') = ascii ''https://abit.itmo.ru/''"
  by (simp_all add: item_ok_def item_url_def good_item_def other_item_def bad_item_def
      dict_get_def example_valid_url_def example_url_text_def ascii_def)

lemma items_key: "map_of [(ascii ''items'', v)] (ascii ''items'') = Some v"
  by simp

lemma success_200: "is_success 200"
  by (simp add: is_success_def)

lemma search_world_two_links:
  "fst (search_relevant_links world_two_links q) = [ascii ''https://itmo.ru/'', ascii ''https://abit.itmo.ru/'']"
  using search_list_ok [OF world_two_links_fields(1) success_200 items_key, of q]
  by (simp add: example_items world_two_links_fields)

lemma search_world_bad_link: "search_relevant_links world_bad_link q = ([], apology)"
proof -
  have "search_fails world_bad_link q"
    using search_fails_list [OF world_bad_link_fields(1) success_200 items_key, of q]
    by (simp add: example_items world_bad_link_fields)
  then show ?thesis by (rule search_relevant_links_fails)
qed

lemma predict_try_log_fails: "logger w Processing = Some e \<Longrightarrow> predict_try w body = Inl e"
  by (simp add: predict_try_def)

lemma serve_failure:
  assumes "validate_request payload = Some body" "predict_try w body = Inl e"
    and "logger w Incoming = None" "logger w Completed = None"
  shows "serve w payload =
     (if exc_class e = ValueError then
        (case logger w ValidationFailure of
           Some e' \<Rightarrow> Unhandled e'
         | None \<Rightarrow> Response 400 (DetailBody (exc_text e)))
      else
        (case logger w InternalFailure of
           Some e' \<Rightarrow> Unhandled e'
         | None \<Rightarrow> Response 500 (DetailBody (ascii ''Internal server error''))))"
  using assms
  by (simp add: serve_def api_request_def predict_def log_requests_def split: option.splits)

lemma world_log_down_fields:
  "search_api world_log_down q = Inl (PyExc OtherException (ascii ''ConnectError''))"
  "logger world_log_down Processing = Some (PyExc OtherException (ascii ''log queue is full''))"
  "logger world_log_down Incoming = None"
  "logger world_log_down InternalFailure = None"
  "logger world_log_down Completed = None"
  by (simp_all add: world_log_down_def world_42_def quiet_def)

lemma world_log_closed_fields:
  "logger world_log_closed Processing = Some (PyExc ValueError (ascii ''I/O operation on closed file''))"
  "logger world_log_closed Incoming = None"
  "logger world_log_closed ValidationFailure = None"
  "logger world_log_closed Completed = None"
  by (simp_all add: world_log_closed_def world_42_def quiet_def)

lemma predict_try_late_log_fails:
  assumes "logger w Processing = None" "logger w Success = Some e"
    and "get_correct_answer w (req_query body) = PyInt n" "answer_in_range n"
  shows "predict_try w body = Inl e"
  using assms
  by (simp add: predict_try_def PredictionResponse_def split: prod.splits)

lemma world_log_late_fields:
  "completion_api world_log_late q = Inr (Some (Completion (Some [Choice (Some (ascii ''The answer is 2''))])))"
  "search_api world_log_late q = Inl (PyExc OtherException (ascii ''ConnectError''))"
  "logger world_log_late Incoming = None"
  "logger world_log_late Processing = None"
  "logger world_log_late Success = Some (PyExc OtherException (ascii ''log queue is full''))"
  "logger world_log_late InternalFailure = None"
  "logger world_log_late Completed = None"
  by (simp_all add: world_log_late_def world_2_def world_42_def quiet_def)

lemma answer_world_log_late: "get_correct_answer world_log_late q = PyInt 2"
  using get_correct_answer_choices [OF world_log_late_fields(1), of q] by (simp add: resolved_2)

lemma world_items_text_fields:
  "search_api world_items_text q = Inr (HttpReply 200 (Some items_text_payload))"
  by (simp add: world_items_text_def world_2_def world_42_def)

lemma search_world_items_text: "search_relevant_links world_items_text q = ([], lead_in)"
  by (simp add: search_relevant_links_def search_try_def world_items_text_fields success_200
      items_text_payload_def first_items_def)

section \<open>Claims about answer resolution\<close>

text \<open>
  C5. Whenever the completion API returns a non-empty choice list, the answer is the
  integer \<open>int\<close> reads from the last whitespace-delimited token of the first choice's
  text, and \<open>-1\<close> when that token is not an integer. The same \<open>-1\<close> comes out when
  the text is missing or has no token at all.
\<close>

theorem last_token_decides_answer:
  assumes "completion_api w q = Inr (Some (Completion (Some (c # cs))))"
  shows "get_correct_answer w q =
     PyInt (case message_content c of
              None \<Rightarrow> - 1
            | Some text \<Rightarrow>
                (case py_split text of
                   [] \<Rightarrow> - 1
                 | t # ts \<Rightarrow> (case py_int (last (t # ts)) of None \<Rightarrow> - 1 | Some n \<Rightarrow> n)))"
  using get_correct_answer_choices [OF assms] by (simp add: resolved_def)

theorem last_token_decides_answer_witness:
  "completion_api world_42 (ascii ''ITMO?'') =
     Inr (Some (Completion (Some (Choice (Some (ascii ''The answer is 42'')) # [])))) \<and>
   py_split (ascii ''The answer is 42'') = [ascii ''The'', ascii ''answer'', ascii ''is'', ascii ''42''] \<and>
   py_int (ascii ''42'') = Some 42 \<and>
   get_correct_answer world_42 (ascii ''ITMO?'') = PyInt 42"
proof -
  have h: "completion_api world_42 (ascii ''ITMO?'') =
     Inr (Some (Completion (Some (Choice (Some (ascii ''The answer is 42'')) # []))))"
    by (simp add: world_42_fields)
  have s: "py_split (ascii ''The answer is 42'') = [ascii ''The'', ascii ''answer'', ascii ''is'', ascii ''42'']"
    by (simp add: text_eval)
  have i: "py_int (ascii ''42'') = Some 42"
    by (simp add: text_eval)
  from last_token_decides_answer [OF h] s i
  have "get_correct_answer world_42 (ascii ''ITMO?'') = PyInt 42" by simp
  with h s i show ?thesis by blast
qed

text \<open>
  C2. Every failure of answer resolution should give \<open>-1\<close>. With an empty choice list the
  \<open>if\<close> of \<open>get_correct_answer\<close> is skipped, nothing is raised, and the function ends
  without a \<open>return\<close>: the result is \<open>None\<close>, not \<open>-1\<close>.
\<close>

theorem empty_choice_list_returns_none:
  "completion_api world_no_choices (ascii ''ITMO?'') = Inr (Some (Completion (Some []))) \<and>
   get_correct_answer world_no_choices (ascii ''ITMO?'') = PyNone"
  by (simp add: world_no_choices_def get_correct_answer_def resolve_try_def)

section \<open>Claims about the response\<close>

text \<open>
  C1. The \<open>answer\<close> of every response of the prediction endpoint is an integer from 1 to
  10 or exactly \<open>-1\<close>, never another integer and never \<open>None\<close>. \<open>main.py\<close> itself
  hands over whatever \<open>get_correct_answer\<close> returned; it is the response class that
  admits no other value, and a value it rejects is answered with 400 instead.
\<close>

theorem response_answer_in_range:
  assumes "serve w payload = Response 200 (PredictionBody r)"
  shows "answer_in_range (answer r) \<and>
         (\<exists>body. validate_request payload = Some body \<and>
            get_correct_answer w (req_query body) = PyInt (answer r))"
proof -
  from serve_200D [OF assms] obtain body
    where body: "validate_request payload = Some body" and r: "predict_try w body = Inr r"
    by blast
  from predict_try_InrD(1,4) [OF r] body show ?thesis by blast
qed

theorem response_answer_in_range_witness:
  "serve world_2 request_1 = Response 200 (PredictionBody response_2) \<and>
   answer response_2 = 2 \<and> answer_in_range (answer response_2) \<and>
   (\<exists>body. validate_request request_1 = Some body \<and>
      get_correct_answer world_2 (req_query body) = PyInt (answer response_2))"
  using response_answer_in_range [OF serve_world_2] serve_world_2
  by (simp add: response_2_def)

text \<open>
  C7. In every 200 response the \<open>id\<close> is the \<open>id\<close> of the request that was accepted.
\<close>

theorem response_id_is_request_id:
  assumes "serve w payload = Response 200 (PredictionBody r)"
  shows "\<exists>body. validate_request payload = Some body \<and> resp_id r = req_id body"
proof -
  from serve_200D [OF assms] obtain body
    where "validate_request payload = Some body" "predict_try w body = Inr r"
    by blast
  with predict_try_InrD(2) show ?thesis by blast
qed

theorem response_id_is_request_id_witness:
  "serve world_2 request_1 = Response 200 (PredictionBody response_2) \<and>
   validate_request request_1 = Some \<lparr>req_id = JNum 1, req_query = ascii ''ITMO?''\<rparr> \<and>
   resp_id response_2 = JNum 1"
  using response_id_is_request_id [OF serve_world_2] serve_world_2 validate_request_1
  by (simp add: response_2_def)

text \<open>
  C4, as stated: a body without \<open>query\<close> is answered with 400. It fails: the body is
  rejected by the framework's validation before \<open>predict\<close> runs, and the answer is 422.
\<close>

theorem missing_query_answered_422:
  "map_of [(ascii ''id'', JNum 1)] (ascii ''query'') = None \<and>
   serve world_42 request_no_query = Response 422 RequestErrorsBody"
  by (simp add: serve_def api_request_def log_requests_def validate_request_def
      request_no_query_def world_42_fields ascii_def)

text \<open>
  C4, amended: when the two log calls of the middleware succeed, a JSON object without
  \<open>query\<close> is answered with 422 and the framework's validation errors; \<open>predict\<close> and
  its \<open>400\<close> handler are never reached.
\<close>

theorem missing_query_rejected_by_framework:
  assumes "map_of d (ascii ''query'') = None"
    and "logger w Incoming = None" "logger w Completed = None"
  shows "serve w (JObj d) = Response 422 RequestErrorsBody"
  using assms validate_request_missing_query [OF assms(1)]
  by (simp add: serve_def api_request_def log_requests_def)

theorem missing_query_rejected_by_framework_witness:
  "map_of [(ascii ''id'', JNum 7)] (ascii ''query'') = None \<and>
   logger world_42 Incoming = None \<and> logger world_42 Completed = None \<and>
   serve world_42 (JObj [(ascii ''id'', JNum 7)]) = Response 422 RequestErrorsBody"
proof -
  have h: "map_of [(ascii ''id'', JNum 7)] (ascii ''query'') = None"
    by (simp add: ascii_def)
  from missing_query_rejected_by_framework [OF h world_42_fields(3) world_42_fields(3)] h
  show ?thesis by (simp add: world_42_fields)
qed

section \<open>Claims about evidence retrieval\<close>

text \<open>
  C10. Retrieval is all or nothing: when one of the first three items cannot be
  processed, whatever was collected from the items before it is dropped and the result
  is exactly the empty list with the apology; and the apology never comes with a
  non-empty list.
\<close>

theorem retrieval_is_all_or_nothing:
  "(search_api w q = Inr (HttpReply code (Some (JObj d))) \<and> is_success code \<and>
    map_of d (ascii ''items'') = Some (JArr its) \<and> \<not> list_all (item_ok w) (take 3 its)
      \<longrightarrow> search_relevant_links w q = ([], apology)) \<and>
   (snd (search_relevant_links w q) = apology \<longrightarrow> fst (search_relevant_links w q) = [])"
  using search_fails_list [of w q code d its] search_relevant_links_fails [of w q]
    apology_means_empty [of w q]
  by blast

theorem retrieval_is_all_or_nothing_witness:
  "search_api world_bad_link (ascii ''ITMO?'') =
     Inr (HttpReply 200 (Some (JObj [(ascii ''items'', JArr [good_item, bad_item])]))) \<and>
   is_success 200 \<and>
   map_of [(ascii ''items'', JArr [good_item, bad_item])] (ascii ''items'') = Some (JArr [good_item, bad_item]) \<and>
   item_ok world_bad_link good_item \<and> \<not> item_ok world_bad_link bad_item \<and>
   \<not> list_all (item_ok world_bad_link) (take 3 [good_item, bad_item]) \<and>
   search_relevant_links world_bad_link (ascii ''ITMO?'') = ([], apology) \<and>
   snd (search_relevant_links world_bad_link (ascii ''ITMO?'')) = apology \<and>
   fst (search_relevant_links world_bad_link (ascii ''ITMO?'')) = []"
proof -
  let ?its = "[good_item, bad_item]"
  let ?q = "ascii ''ITMO?''"
  have a: "search_api world_bad_link ?q = Inr (HttpReply 200 (Some (JObj [(ascii ''items'', JArr ?its)])))"
    by (rule world_bad_link_fields)
  have g: "item_ok world_bad_link good_item" and b: "\<not> item_ok world_bad_link bad_item"
    by (simp_all add: example_items world_bad_link_fields)
  then have n: "\<not> list_all (item_ok world_bad_link) (take 3 ?its)" by simp
  have k: "map_of [(ascii ''items'', JArr ?its)] (ascii ''items'') = Some (JArr ?its)"
    by (rule items_key)
  note t = retrieval_is_all_or_nothing [of world_bad_link ?q 200 "[(ascii ''items'', JArr ?its)]" ?its]
  from t a success_200 k n
  have r: "search_relevant_links world_bad_link ?q = ([], apology)" by blast
  then have s: "snd (search_relevant_links world_bad_link ?q) = apology" by simp
  with t have f: "fst (search_relevant_links world_bad_link ?q) = []" by blast
  from a success_200 k g b n r s f show ?thesis by blast
qed

text \<open>
  C3, as stated: a URL that fails validation is a hard error that leaves retrieval. It
  fails: \<open>HttpUrl(link)\<close> is called inside the \<open>try\<close>, the \<open>ValueError\<close> it raises is
  caught by \<open>except Exception\<close>, and the caller gets the empty list and the apology.
\<close>

theorem url_failure_is_swallowed:
  "search_try world_bad_link (ascii ''ITMO?'') = Inl (PyExc ValueError []) \<and>
   search_relevant_links world_bad_link (ascii ''ITMO?'') = ([], apology)"
  by (simp add: search_relevant_links_def search_try_def world_bad_link_fields success_200
      first_items_def good_item_def bad_item_def http_url_def dict_get_def example_valid_url_def
      ascii_def)

text \<open>
  C3, amended: every element of \<open>sources\<close> is a URL that passed validation, that is, the
  URL built from a link that \<open>HttpUrl\<close> accepted; and a link among the first three
  items that fails validation is swallowed like every other error of retrieval: the
  result is the empty list with the apology.
\<close>

theorem sources_valid_and_url_failure_falls_back:
  "(\<forall>u \<in> set (fst (search_relevant_links w q)). \<exists>l. valid_url w l \<and> u = url_text w l) \<and>
   (search_api w q = Inr (HttpReply code (Some (JObj d))) \<and> is_success code \<and>
    map_of d (ascii ''items'') = Some (JArr its) \<and> JObj f \<in> set (take 3 its) \<and>
    dict_get f (ascii ''link'') = JStr l \<and> \<not> valid_url w l
      \<longrightarrow> search_relevant_links w q = ([], apology))"
proof (intro conjI impI ballI)
  fix u assume "u \<in> set (fst (search_relevant_links w q))"
  then show "\<exists>l. valid_url w l \<and> u = url_text w l" by (rule sources_built)
next
  assume h: "search_api w q = Inr (HttpReply code (Some (JObj d))) \<and> is_success code \<and>
    map_of d (ascii ''items'') = Some (JArr its) \<and> JObj f \<in> set (take 3 its) \<and>
    dict_get f (ascii ''link'') = JStr l \<and> \<not> valid_url w l"
  then have "\<not> item_ok w (JObj f)" by (simp add: item_ok_def)
  with h have "\<not> list_all (item_ok w) (take 3 its)" by (auto simp: list_all_iff)
  with h have "search_fails w q" using search_fails_list [of w q code d its] by blast
  then show "search_relevant_links w q = ([], apology)" by (rule search_relevant_links_fails)
qed

theorem sources_valid_and_url_failure_falls_back_witness:
  "fst (search_relevant_links world_two_links (ascii ''ITMO?'')) =
     [ascii ''https://itmo.ru/'', ascii ''https://abit.itmo.ru/''] \<and>
   (\<exists>l. valid_url world_two_links l \<and> ascii ''https://itmo.ru/'' = url_text world_two_links l) \<and>
   (\<exists>l. valid_url world_two_links l \<and> ascii ''https://abit.itmo.ru/'' = url_text world_two_links l) \<and>
   search_api world_bad_link (ascii ''ITMO?'') =
     Inr (HttpReply 200 (Some (JObj [(ascii ''items'', JArr [good_item, bad_item])]))) \<and>
   is_success 200 \<and>
   map_of [(ascii ''items'', JArr [good_item, bad_item])] (ascii ''items'') = Some (JArr [good_item, bad_item]) \<and>
   JObj [(ascii ''title'', JStr (ascii ''Bad'')), (ascii ''link'', JStr (ascii ''no url''))]
     \<in> set (take 3 [good_item, bad_item]) \<and>
   dict_get [(ascii ''title'', JStr (ascii ''Bad'')), (ascii ''link'', JStr (ascii ''no url''))] (ascii ''link'')
     = JStr (ascii ''no url'') \<and>
   \<not> valid_url world_bad_link (ascii ''no url'') \<and>
   search_relevant_links world_bad_link (ascii ''ITMO?'') = ([], apology)"
proof -
  let ?q = "ascii ''ITMO?''"
  let ?its = "[good_item, bad_item]"
  let ?f = "[(ascii ''title'', JStr (ascii ''Bad'')), (ascii ''link'', JStr (ascii ''no url''))]"
  have s: "fst (search_relevant_links world_two_links ?q) =
     [ascii ''https://itmo.ru/'', ascii ''https://abit.itmo.ru/'']"
    by (rule search_world_two_links)
  from sources_valid_and_url_failure_falls_back [of world_two_links ?q]
  have "\<forall>u \<in> set (fst (search_relevant_links world_two_links ?q)).
          \<exists>l. valid_url world_two_links l \<and> u = url_text world_two_links l"
    by blast
  with s have v:
    "\<exists>l. valid_url world_two_links l \<and> ascii ''https://itmo.ru/'' = url_text world_two_links l"
    "\<exists>l. valid_url world_two_links l \<and> ascii ''https://abit.itmo.ru/'' = url_text world_two_links l"
    by simp_all
  have a: "search_api world_bad_link ?q = Inr (HttpReply 200 (Some (JObj [(ascii ''items'', JArr ?its)])))"
    by (rule world_bad_link_fields)
  have k: "map_of [(ascii ''items'', JArr ?its)] (ascii ''items'') = Some (JArr ?its)"
    by (rule items_key)
  have m: "JObj ?f \<in> set (take 3 ?its)"
    by (simp add: bad_item_def)
  have l: "dict_get ?f (ascii ''link'') = JStr (ascii ''no url'')"
    by (rule example_items)
  have n: "\<not> valid_url world_bad_link (ascii ''no url'')"
    by (simp add: world_bad_link_fields example_items)
  from sources_valid_and_url_failure_falls_back
    [of world_bad_link ?q 200 "[(ascii ''items'', JArr ?its)]" ?its ?f "ascii ''no url''"]
    a success_200 k m l n
  have r: "search_relevant_links world_bad_link ?q = ([], apology)" by blast
  from s v a success_200 k m l n r show ?thesis by blast
qed

text \<open>
  C8, as stated: for every payload \<open>sources\<close> has one entry per consumed item. It
  fails: of a payload of one good and one bad item both are consumed, the first with
  success, and \<open>sources\<close> comes back empty.
\<close>

theorem bad_item_leaves_no_sources:
  "search_api world_bad_link (ascii ''ITMO?'') =
     Inr (HttpReply 200 (Some (JObj [(ascii ''items'', JArr [good_item, bad_item])]))) \<and>
   item_ok world_bad_link good_item \<and>
   fst (search_relevant_links world_bad_link (ascii ''ITMO?'')) = []"
  by (simp add: world_bad_link_fields example_items search_world_bad_link)

text \<open>
  C8, amended: for every outcome of the search call \<open>sources\<close> has at most three
  elements and each is a URL that passed validation; for a payload with a list of items,
  when each of the first three can be processed it has one entry per consumed item and
  no padding (the smaller of three and the number of items), and when one of them cannot
  it is empty.
\<close>

theorem sources_bounded_valid_unpadded:
  "length (fst (search_relevant_links w q)) \<le> 3 \<and>
   (\<forall>u \<in> set (fst (search_relevant_links w q)). \<exists>l. valid_url w l \<and> u = url_text w l) \<and>
   (search_api w q = Inr (HttpReply code (Some (JObj d))) \<and> is_success code \<and>
    map_of d (ascii ''items'') = Some (JArr its) \<and> list_all (item_ok w) (take 3 its)
      \<longrightarrow> length (fst (search_relevant_links w q)) = min 3 (length its)) \<and>
   (search_api w q = Inr (HttpReply code (Some (JObj d))) \<and> is_success code \<and>
    map_of d (ascii ''items'') = Some (JArr its) \<and> \<not> list_all (item_ok w) (take 3 its)
      \<longrightarrow> fst (search_relevant_links w q) = [])"
proof (intro conjI impI ballI)
  show "length (fst (search_relevant_links w q)) \<le> 3" by (rule sources_length)
next
  fix u assume "u \<in> set (fst (search_relevant_links w q))"
  then show "\<exists>l. valid_url w l \<and> u = url_text w l" by (rule sources_built)
next
  assume h: "search_api w q = Inr (HttpReply code (Some (JObj d))) \<and> is_success code \<and>
    map_of d (ascii ''items'') = Some (JArr its) \<and> list_all (item_ok w) (take 3 its)"
  then have "search_relevant_links w q =
     (map (item_url w) (take 3 its), lead_in @ concat (map (item_line w) (take 3 its)))"
    using search_list_ok [of w q code d its] by blast
  then show "length (fst (search_relevant_links w q)) = min 3 (length its)"
    by (simp add: min.commute)
next
  assume h: "search_api w q = Inr (HttpReply code (Some (JObj d))) \<and> is_success code \<and>
    map_of d (ascii ''items'') = Some (JArr its) \<and> \<not> list_all (item_ok w) (take 3 its)"
  then have "search_fails w q" using search_fails_list [of w q code d its] by blast
  then show "fst (search_relevant_links w q) = []" by (simp add: search_relevant_links_fails)
qed

theorem sources_bounded_valid_unpadded_witness:
  "search_api world_two_links (ascii ''ITMO?'') =
     Inr (HttpReply 200 (Some (JObj [(ascii ''items'', JArr [good_item, other_item])]))) \<and>
   is_success 200 \<and>
   map_of [(ascii ''items'', JArr [good_item, other_item])] (ascii ''items'') = Some (JArr [good_item, other_item]) \<and>
   list_all (item_ok world_two_links) (take 3 [good_item, other_item]) \<and>
   fst (search_relevant_links world_two_links (ascii ''ITMO?'')) =
     [ascii ''https://itmo.ru/'', ascii ''https://abit.itmo.ru/''] \<and>
   length (fst (search_relevant_links world_two_links (ascii ''ITMO?''))) = 2 \<and>
   (\<exists>l. valid_url world_two_links l \<and> ascii ''https://itmo.ru/'' = url_text world_two_links l) \<and>
   (\<exists>l. valid_url world_two_links l \<and> ascii ''https://abit.itmo.ru/'' = url_text world_two_links l) \<and>
   search_api world_bad_link (ascii ''ITMO?'') =
     Inr (HttpReply 200 (Some (JObj [(ascii ''items'', JArr [good_item, bad_item])]))) \<and>
   map_of [(ascii ''items'', JArr [good_item, bad_item])] (ascii ''items'') = Some (JArr [good_item, bad_item]) \<and>
   \<not> list_all (item_ok world_bad_link) (take 3 [good_item, bad_item]) \<and>
   fst (search_relevant_links world_bad_link (ascii ''ITMO?'')) = []"
proof -
  let ?q = "ascii ''ITMO?''"
  let ?its = "[good_item, other_item]"
  let ?bad = "[good_item, bad_item]"
  have a: "search_api world_two_links ?q = Inr (HttpReply 200 (Some (JObj [(ascii ''items'', JArr ?its)])))"
    by (rule world_two_links_fields)
  have k: "map_of [(ascii ''items'', JArr ?its)] (ascii ''items'') = Some (JArr ?its)"
    by (rule items_key)
  have o: "list_all (item_ok world_two_links) (take 3 ?its)"
    by (simp add: example_items world_two_links_fields)
  have s: "fst (search_relevant_links world_two_links ?q) =
     [ascii ''https://itmo.ru/'', ascii ''https://abit.itmo.ru/'']"
    by (rule search_world_two_links)
  note t = sources_bounded_valid_unpadded [of world_two_links ?q 200 "[(ascii ''items'', JArr ?its)]" ?its]
  from t a success_200 k o
  have "length (fst (search_relevant_links world_two_links ?q)) = min 3 (length ?its)"
    by blast
  then have n2: "length (fst (search_relevant_links world_two_links ?q)) = 2" by simp
  from t have "\<forall>u \<in> set (fst (search_relevant_links world_two_links ?q)).
                 \<exists>l. valid_url world_two_links l \<and> u = url_text world_two_links l"
    by blast
  with s have v:
    "\<exists>l. valid_url world_two_links l \<and> ascii ''https://itmo.ru/'' = url_text world_two_links l"
    "\<exists>l. valid_url world_two_links l \<and> ascii ''https://abit.itmo.ru/'' = url_text world_two_links l"
    by simp_all
  have b: "search_api world_bad_link ?q = Inr (HttpReply 200 (Some (JObj [(ascii ''items'', JArr ?bad)])))"
    by (rule world_bad_link_fields)
  have kb: "map_of [(ascii ''items'', JArr ?bad)] (ascii ''items'') = Some (JArr ?bad)"
    by (rule items_key)
  have nb: "\<not> list_all (item_ok world_bad_link) (take 3 ?bad)"
    by (simp add: example_items world_bad_link_fields)
  from sources_bounded_valid_unpadded [of world_bad_link ?q 200 "[(ascii ''items'', JArr ?bad)]" ?bad]
    b success_200 kb nb
  have e: "fst (search_relevant_links world_bad_link ?q) = []" by blast
  from a success_200 k o s n2 v b kb nb e show ?thesis by blast
qed

section \<open>Claims about failures in the pipeline\<close>

text \<open>
  C9, as stated: every unexpected exception, a logger failure included, is answered with
  500 and the fixed detail, and no exception text reaches a response body. It fails:
  \<open>except ValueError\<close> comes first, so a logger that raises a \<open>ValueError\<close> is
  answered with 400 and the text of that exception as the detail.
\<close>

theorem logger_value_error_answered_400:
  "logger world_log_closed Processing = Some (PyExc ValueError (ascii ''I/O operation on closed file'')) \<and>
   serve world_log_closed request_1 = Response 400 (DetailBody (ascii ''I/O operation on closed file''))"
  using serve_failure [OF validate_request_1 predict_try_log_fails [OF world_log_closed_fields(1)]
      world_log_closed_fields(2) world_log_closed_fields(4)]
  by (simp add: world_log_closed_fields)

text \<open>
  C9, amended: when the middleware's log calls succeed, an exception raised in the
  \<open>try\<close> block of \<open>predict\<close> that is not a \<open>ValueError\<close> is answered, once it has
  been logged, with 500 and exactly the detail \<open>Internal server error\<close>, whatever its
  text; a \<open>ValueError\<close> is answered with 400 and its own text as the detail.
\<close>

theorem error_status_follows_exception_class:
  assumes "validate_request payload = Some body" "predict_try w body = Inl e"
    and "logger w Incoming = None" "logger w Completed = None"
  shows "(exc_class e \<noteq> ValueError \<and> logger w InternalFailure = None \<longrightarrow>
            serve w payload = Response 500 (DetailBody (ascii ''Internal server error''))) \<and>
         (exc_class e = ValueError \<and> logger w ValidationFailure = None \<longrightarrow>
            serve w payload = Response 400 (DetailBody (exc_text e)))"
  using serve_failure [OF assms] by simp

theorem error_status_follows_exception_class_witness:
  "validate_request request_1 = Some \<lparr>req_id = JNum 1, req_query = ascii ''ITMO?''\<rparr> \<and>
   predict_try world_log_down \<lparr>req_id = JNum 1, req_query = ascii ''ITMO?''\<rparr> =
     Inl (PyExc OtherException (ascii ''log queue is full'')) \<and>
   logger world_log_down Incoming = None \<and> logger world_log_down Completed = None \<and>
   exc_class (PyExc OtherException (ascii ''log queue is full'')) \<noteq> ValueError \<and>
   logger world_log_down InternalFailure = None \<and>
   serve world_log_down request_1 = Response 500 (DetailBody (ascii ''Internal server error'')) \<and>
   predict_try world_log_closed \<lparr>req_id = JNum 1, req_query = ascii ''ITMO?''\<rparr> =
     Inl (PyExc ValueError (ascii ''I/O operation on closed file'')) \<and>
   logger world_log_closed Incoming = None \<and> logger world_log_closed Completed = None \<and>
   exc_class (PyExc ValueError (ascii ''I/O operation on closed file'')) = ValueError \<and>
   logger world_log_closed ValidationFailure = None \<and>
   serve world_log_closed request_1 =
     Response 400 (DetailBody (exc_text (PyExc ValueError (ascii ''I/O operation on closed file''))))"
proof -
  let ?body = "\<lparr>req_id = JNum 1, req_query = ascii ''ITMO?''\<rparr>"
  have d: "predict_try world_log_down ?body = Inl (PyExc OtherException (ascii ''log queue is full''))"
    by (rule predict_try_log_fails) (rule world_log_down_fields)
  have c: "predict_try world_log_closed ?body = Inl (PyExc ValueError (ascii ''I/O operation on closed file''))"
    by (rule predict_try_log_fails) (rule world_log_closed_fields)
  from error_status_follows_exception_class
    [OF validate_request_1 d world_log_down_fields(3) world_log_down_fields(5)]
  have r1: "serve world_log_down request_1 = Response 500 (DetailBody (ascii ''Internal server error''))"
    by (simp add: world_log_down_fields)
  from error_status_follows_exception_class
    [OF validate_request_1 c world_log_closed_fields(2) world_log_closed_fields(4)]
  have r2: "serve world_log_closed request_1 =
     Response 400 (DetailBody (exc_text (PyExc ValueError (ascii ''I/O operation on closed file''))))"
    by (simp add: world_log_closed_fields)
  from validate_request_1 d c r1 r2 show ?thesis
    by (simp add: world_log_down_fields world_log_closed_fields)
qed

text \<open>
  C6, as stated: whenever the search API call fails, by a transport error, a status
  outside 2xx or a malformed payload, the result is the empty list with the apology and
  the HTTP response is still a 200. It fails twice. The search API is unreachable,
  \<open>search_relevant_links\<close> is called and gives the apology, the response is built,
  and the log call that follows raises: the response is a 500. And the malformed payload
  \<open>{"items": ""}\<close> raises nothing: the result is the empty list with the lead-in, not
  the apology.
\<close>

theorem failed_search_answered_500_and_malformed_payload_read:
  "search_api world_log_late (ascii ''ITMO?'') = Inl (PyExc OtherException (ascii ''ConnectError'')) \<and>
   logger world_log_late Processing = None \<and>
   search_relevant_links world_log_late (ascii ''ITMO?'') = ([], apology) \<and>
   validate_request request_1 = Some \<lparr>req_id = JNum 1, req_query = ascii ''ITMO?''\<rparr> \<and>
   serve world_log_late request_1 = Response 500 (DetailBody (ascii ''Internal server error'')) \<and>
   search_api world_items_text (ascii ''ITMO?'') = Inr (HttpReply 200 (Some items_text_payload)) \<and>
   \<not> well_formed_payload world_items_text (Some items_text_payload) \<and>
   search_relevant_links world_items_text (ascii ''ITMO?'') = ([], lead_in) \<and>
   lead_in \<noteq> apology"
proof -
  let ?q = "ascii ''ITMO?''"
  let ?body = "\<lparr>req_id = JNum 1, req_query = ?q\<rparr>"
  have f: "search_fails world_log_late ?q"
    by (rule search_fails_unreachable) (rule world_log_late_fields)
  have p: "predict_try world_log_late ?body = Inl (PyExc OtherException (ascii ''log queue is full''))"
    by (rule predict_try_late_log_fails
        [OF world_log_late_fields(4) world_log_late_fields(5) answer_world_log_late in_range_2])
  from serve_failure [OF validate_request_1 p world_log_late_fields(3) world_log_late_fields(7)]
  have r: "serve world_log_late request_1 = Response 500 (DetailBody (ascii ''Internal server error''))"
    by (simp add: world_log_late_fields)
  have m: "\<not> well_formed_payload world_items_text (Some items_text_payload)"
    by (simp add: well_formed_payload_def items_text_payload_def)
  have n: "lead_in \<noteq> apology"
    using lead_in_not_apology [of "[]"] by simp
  from search_relevant_links_fails [OF f] r m n show ?thesis
    by (simp add: world_log_late_fields validate_request_1 world_items_text_fields
        search_world_items_text)
qed

text \<open>
  C6, amended: when the search API call fails by a transport error, a status outside
  2xx, or a body the code cannot read (not JSON, not an object, an \<open>items\<close> that is
  neither a list nor the empty string, or one of the first three items not an object with
  a link that passes validation), \<open>search_relevant_links\<close> returns exactly the empty
  list and the apology; and when moreover the four log calls on the way succeed and the
  resolver returned an answer the response admits, the response is a 200 carrying that
  answer, the apology and no sources.
\<close>

theorem search_failure_degrades_to_apology:
  assumes "search_fails w q"
  shows "search_relevant_links w q = ([], apology) \<and>
         (validate_request payload = Some body \<and> req_query body = q \<and>
          logger w Incoming = None \<and> logger w Processing = None \<and>
          logger w Success = None \<and> logger w Completed = None \<and>
          get_correct_answer w q = PyInt n \<and> answer_in_range n
            \<longrightarrow> serve w payload =
                  Response 200 (PredictionBody
                    \<lparr>resp_id = req_id body, answer = n, reasoning = apology, sources = []\<rparr>))"
proof (intro conjI impI)
  show r: "search_relevant_links w q = ([], apology)"
    using assms by (rule search_relevant_links_fails)
  assume h: "validate_request payload = Some body \<and> req_query body = q \<and>
          logger w Incoming = None \<and> logger w Processing = None \<and>
          logger w Success = None \<and> logger w Completed = None \<and>
          get_correct_answer w q = PyInt n \<and> answer_in_range n"
  with r show "serve w payload =
      Response 200 (PredictionBody \<lparr>resp_id = req_id body, answer = n, reasoning = apology, sources = []\<rparr>)"
    using serve_quiet [of payload body w n "[]" apology] by blast
qed

theorem search_failure_degrades_to_apology_witness:
  "search_api world_2 (ascii ''ITMO?'') = Inl (PyExc OtherException (ascii ''ConnectError'')) \<and>
   search_fails world_2 (ascii ''ITMO?'') \<and>
   search_relevant_links world_2 (ascii ''ITMO?'') = ([], apology) \<and>
   validate_request request_1 = Some \<lparr>req_id = JNum 1, req_query = ascii ''ITMO?''\<rparr> \<and>
   logger world_2 Incoming = None \<and> logger world_2 Processing = None \<and>
   logger world_2 Success = None \<and> logger world_2 Completed = None \<and>
   get_correct_answer world_2 (ascii ''ITMO?'') = PyInt 2 \<and> answer_in_range 2 \<and>
   serve world_2 request_1 =
     Response 200 (PredictionBody \<lparr>resp_id = JNum 1, answer = 2, reasoning = apology, sources = []\<rparr>)"
proof -
  let ?q = "ascii ''ITMO?''"
  let ?body = "\<lparr>req_id = JNum 1, req_query = ?q\<rparr>"
  have f: "search_fails world_2 ?q"
    by (rule search_fails_unreachable) (rule world_2_fields)
  note t = search_failure_degrades_to_apology [OF f, of request_1 ?body 2]
  from t have r: "search_relevant_links world_2 ?q = ([], apology)" by blast
  have q: "req_query ?body = ?q" by simp
  from t validate_request_1 q world_2_fields(3) answer_world_2 [of ?q] in_range_2
  have s: "serve world_2 request_1 =
     Response 200 (PredictionBody \<lparr>resp_id = req_id ?body, answer = 2, reasoning = apology, sources = []\<rparr>)"
    by blast
  from f r validate_request_1 s answer_world_2 [of ?q] in_range_2 show ?thesis
    by (simp add: world_2_fields)
qed

end
